theory Spec2Isabelle
  imports Complex_Main
begin

section \<open>Event processor (webhooks/event\_processor.py)\<close>

text \<open>
  JSON values as \<open>json.loads\<close> returns them (numbers restricted to integers). A dict is
  an association list read with \<open>map_of\<close>.
\<close>

datatype json = JNull | JBool bool | JInt int | JStr string
  | JList "json list" | JDict "(string \<times> json) list"

text \<open>\<open>class TradeStatus(str, Enum)\<close>.\<close>

datatype TradeStatus = PENDING | CONFIRMED | COMPLETED | FAILED

text \<open>\<open>@dataclass class Event\<close>; Python's unbounded \<open>int\<close> is \<open>int\<close>.\<close>

record Event =
  event_id :: string
  trade_id :: string
  tx_hash :: string
  confirmation_count :: int
  timestamp :: string
  event_type :: string
  data :: "(string \<times> json) list"
  retry_count :: int

text \<open>The summary dict appended to \<open>trade["events"]\<close>.\<close>

record EventSummary =
  es_event_id :: string
  es_tx_hash :: string
  es_confirmation_count :: int
  es_timestamp :: string
  es_event_type :: string

text \<open>
  One entry of \<open>bot_data["trades"]\<close>. The keys \<open>confirmed_at\<close> and \<open>completed_at\<close>
  are absent until they are first written, hence optional.
\<close>

record Trade =
  status :: TradeStatus
  created_at :: string
  confirmations :: int
  events :: "EventSummary list"
  confirmed_at :: "string option"
  completed_at :: "string option"

text \<open>\<open>@dataclass class DeadLetterEvent\<close>; \<open>original_event\<close> holds \<open>asdict(event)\<close>.\<close>

record DeadLetterEvent =
  dl_event_id :: string
  dl_trade_id :: string
  error_message :: string
  dl_timestamp :: string
  dl_retry_count :: int
  original_event :: Event

text \<open>
  The state an \<open>EventProcessor\<close> works on: its two configuration fields, the document of
  \<open>bot_data.json\<close> (\<open>trades\<close>), the document of the dead letter queue file
  (\<open>failed_events\<close>), the asyncio queue and the in-memory \<open>processed_events\<close> dict.
  Both files are created by \<open>_initialize_files\<close> and rewritten only by the processor, so
  they are modelled as always holding a well-formed document. \<open>dlq_writes\<close> counts the
  calls of \<open>_save_dlq\<close>, so that rewriting the file with the same content is visible.
\<close>

record Processor =
  confirmation_threshold :: int
  max_retries :: int
  trades :: "string \<rightharpoonup> Trade"
  failed_events :: "DeadLetterEvent list"
  dlq_writes :: nat
  event_queue :: "Event list"
  processed_events :: "string \<rightharpoonup> Event"

text \<open>
  Lines 206--212 of \<open>_process_event\<close>: the record created for an unknown trade id.
  \<open>now\<close> stands for \<open>datetime.utcnow().isoformat()\<close>; the up to three readings of the
  clock within one call are taken to give the same text.
\<close>

definition new_trade :: "string \<Rightarrow> Trade" where
  "new_trade now =
     \<lparr>status = PENDING, created_at = now, confirmations = 0, events = [],
      confirmed_at = None, completed_at = None\<rparr>"

definition event_summary :: "Event \<Rightarrow> EventSummary" where
  "event_summary ev =
     \<lparr>es_event_id = event_id ev, es_tx_hash = tx_hash ev,
      es_confirmation_count = confirmation_count ev,
      es_timestamp = timestamp ev, es_event_type = event_type ev\<rparr>"

text \<open>
  Lines 214--247 of \<open>_process_event\<close>: the update of the trade dict, in the order of the
  source: confirmations, history, then the two nested status tests.
\<close>

definition update_trade :: "int \<Rightarrow> string \<Rightarrow> Event \<Rightarrow> Trade \<Rightarrow> Trade" where
  "update_trade threshold now ev trade =
     (let t1 = trade\<lparr>confirmations := max (confirmations trade) (confirmation_count ev)\<rparr>;
          t2 = t1\<lparr>events := events t1 @ [event_summary ev]\<rparr>
      in if confirmation_count ev \<ge> threshold then
           (let t3 = (if status t2 = PENDING
                      then t2\<lparr>status := CONFIRMED, confirmed_at := Some now\<rparr>
                      else t2)
            in if event_type ev = ''final_confirmation''
               then t3\<lparr>status := COMPLETED, completed_at := Some now\<rparr>
               else t3)
         else t2)"

text \<open>The trade an event is applied to: the stored one, or a fresh one.\<close>

definition get_or_create :: "string \<Rightarrow> Event \<Rightarrow> Processor \<Rightarrow> Trade" where
  "get_or_create now ev p =
     (case trades p (trade_id ev) of None \<Rightarrow> new_trade now | Some t \<Rightarrow> t)"

text \<open>\<open>EventProcessor._process_event\<close>.\<close>

definition process_event :: "string \<Rightarrow> Event \<Rightarrow> Processor \<Rightarrow> Processor" where
  "process_event now ev p =
     p\<lparr>trades := (trades p)(trade_id ev \<mapsto>
          update_trade (confirmation_threshold p) now ev (get_or_create now ev p)),
       processed_events := (processed_events p)(event_id ev \<mapsto> ev)\<rparr>"

text \<open>
  A run of the processor over a sequence of events, each paired with the time at which
  it is processed, in the order in which they are dequeued.
\<close>

fun process_events :: "(string \<times> Event) list \<Rightarrow> Processor \<Rightarrow> Processor" where
  "process_events [] p = p"
| "process_events ((now, ev) # rest) p = process_events rest (process_event now ev p)"

text \<open>\<open>EventProcessor.get_trade_status\<close>.\<close>

definition get_trade_status :: "Processor \<Rightarrow> string \<Rightarrow> Trade option" where
  "get_trade_status p tid = trades p tid"

text \<open>
  The order of the state machine the specification draws: PENDING, then CONFIRMED, then
  COMPLETED. FAILED is not on that path.
\<close>

fun forward :: "TradeStatus \<Rightarrow> TradeStatus \<Rightarrow> bool" where
  "forward PENDING s' = (s' = PENDING \<or> s' = CONFIRMED \<or> s' = COMPLETED)"
| "forward CONFIRMED s' = (s' = CONFIRMED \<or> s' = COMPLETED)"
| "forward COMPLETED s' = (s' = COMPLETED)"
| "forward FAILED s' = (s' = FAILED)"

text \<open>Concrete inputs used by the closed theorems below.\<close>

definition ex_event :: "int \<Rightarrow> string \<Rightarrow> Event" where
  "ex_event n ty =
     \<lparr>event_id = ''evt_001'', trade_id = ''trade_001'', tx_hash = ''0xabc123'',
      confirmation_count = n, timestamp = ''2024-01-01T00:00:00'',
      event_type = ty, data = [], retry_count = 0\<rparr>"

definition ex_trade :: "TradeStatus \<Rightarrow> int \<Rightarrow> Trade" where
  "ex_trade s n =
     \<lparr>status = s, created_at = ''2024-01-01T00:00:00'', confirmations = n, events = [],
      confirmed_at = None, completed_at = None\<rparr>"

definition ex_processor :: "Processor" where
  "ex_processor =
     \<lparr>confirmation_threshold = 3, max_retries = 5, trades = Map.empty,
      failed_events = [], dlq_writes = 0, event_queue = [], processed_events = Map.empty\<rparr>"

definition ex_processor_with :: "Trade \<Rightarrow> Processor" where
  "ex_processor_with t = ex_processor\<lparr>trades := [''trade_001'' \<mapsto> t]\<rparr>"

subsection \<open>Retry wrapper, dead letter queue and replay\<close>

text \<open>
  What a processing attempt can raise. \<open>RetryError\<close> is tenacity's wrapper, carrying the
  text of \<open>last_attempt.exception()\<close>; every other exception is \<open>Exception\<close> with its
  \<open>str\<close>.
\<close>

datatype exn = Exception string | RetryError string

text \<open>
  The body run by one attempt, indexed by tenacity's \<open>attempt_number\<close> (from 1). The tests
  replace \<open>_process_event\<close> by failing bodies in the same way. A failed attempt leaves the
  processor as it was.
\<close>

type_synonym processing = "nat \<Rightarrow> Event \<Rightarrow> Processor \<Rightarrow> exn + Processor"

text \<open>The unpatched body: \<open>_process_event\<close> itself, which returns normally.\<close>

definition real_processing :: "string \<Rightarrow> processing" where
  "real_processing now = (\<lambda>attempt_number ev p. Inr (process_event now ev p))"

text \<open>
  tenacity's loop for \<open>retry(stop=stop_after_attempt(n), retry=retry_if_exception_type(Exception),
  reraise=True)\<close>: the call is repeated while it raises; with \<open>reraise=True\<close> the exception
  of the last attempt is raised as it is, not wrapped in a \<open>RetryError\<close>. The first argument
  counts the attempts still allowed after the current one.
\<close>

fun retry_loop :: "nat \<Rightarrow> nat \<Rightarrow> (nat \<Rightarrow> exn + 'a) \<Rightarrow> exn + 'a" where
  "retry_loop 0 attempt_number fn = fn attempt_number"
| "retry_loop (Suc remaining) attempt_number fn =
     (case fn attempt_number of
        Inr r \<Rightarrow> Inr r
      | Inl e \<Rightarrow> retry_loop remaining (Suc attempt_number) fn)"

definition stop_after_attempt :: nat where
  "stop_after_attempt = 5"

text \<open>\<open>EventProcessor._process_event_with_retry\<close>.\<close>

definition process_event_with_retry ::
    "processing \<Rightarrow> Event \<Rightarrow> Processor \<Rightarrow> exn + Processor" where
  "process_event_with_retry proc ev p =
     retry_loop (stop_after_attempt - 1) 1 (\<lambda>attempt_number. proc attempt_number ev p)"

text \<open>
  \<open>EventProcessor._handle_failed_event\<close>; \<open>err\<close> is \<open>str(error)\<close> and \<open>now\<close> the time
  of the failure.
\<close>

definition handle_failed_event ::
    "string \<Rightarrow> Event \<Rightarrow> string \<Rightarrow> int \<Rightarrow> Processor \<Rightarrow> Processor" where
  "handle_failed_event now ev err n p =
     p\<lparr>failed_events := failed_events p @
          [\<lparr>dl_event_id = event_id ev, dl_trade_id = trade_id ev, error_message = err,
            dl_timestamp = now, dl_retry_count = n, original_event = ev\<rparr>],
       dlq_writes := Suc (dlq_writes p)\<rparr>"

text \<open>
  One iteration of the loop of \<open>EventProcessor.process_queue\<close> that finds an event in the
  queue: the \<open>except RetryError\<close> clause comes first, then \<open>except Exception\<close>.
\<close>

definition process_queue_step :: "processing \<Rightarrow> string \<Rightarrow> Processor \<Rightarrow> Processor" where
  "process_queue_step proc now p =
     (case event_queue p of
        [] \<Rightarrow> p
      | ev # rest \<Rightarrow>
          (let p1 = p\<lparr>event_queue := rest\<rparr>
           in case process_event_with_retry proc ev p1 of
                Inr p2 \<Rightarrow> p2
              | Inl (RetryError msg) \<Rightarrow> handle_failed_event now ev msg (max_retries p1) p1
              | Inl (Exception msg) \<Rightarrow> handle_failed_event now ev msg 0 p1))"

text \<open>\<open>EventProcessor.enqueue_event\<close>.\<close>

definition enqueue_event :: "Event \<Rightarrow> Processor \<Rightarrow> Processor" where
  "enqueue_event ev p = p\<lparr>event_queue := event_queue p @ [ev]\<rparr>"

text \<open>
  The search loop of \<open>retry_dlq_event\<close>: the first entry with the given id is popped from
  the list.
\<close>

fun pop_first :: "string \<Rightarrow> DeadLetterEvent list
    \<Rightarrow> (DeadLetterEvent \<times> DeadLetterEvent list) option" where
  "pop_first eid [] = None"
| "pop_first eid (d # ds) =
     (if dl_event_id d = eid then Some (d, ds)
      else (case pop_first eid ds of
              None \<Rightarrow> None
            | Some (found, others) \<Rightarrow> Some (found, d # others)))"

text \<open>
  \<open>EventProcessor.retry_dlq_event\<close>. The task created for \<open>enqueue_event\<close> is run to its
  end: the event is in the queue afterwards.
\<close>

definition retry_dlq_event :: "string \<Rightarrow> Processor \<Rightarrow> bool \<times> Processor" where
  "retry_dlq_event eid p =
     (case pop_first eid (failed_events p) of
        None \<Rightarrow> (False, p)
      | Some (event_data, others) \<Rightarrow>
          (True,
           enqueue_event
             ((original_event event_data)
                \<lparr>retry_count := retry_count (original_event event_data) + 1\<rparr>)
             (p\<lparr>failed_events := others, dlq_writes := Suc (dlq_writes p)\<rparr>)))"

text \<open>\<open>EventProcessor.get_dlq_events\<close>.\<close>

definition get_dlq_events :: "Processor \<Rightarrow> DeadLetterEvent list" where
  "get_dlq_events p = failed_events p"

definition always_fail :: processing where
  "always_fail = (\<lambda>attempt_number ev p. Inl (Exception ''Persistent failure''))"

definition ex_now :: string where
  "ex_now = ''2024-01-02T00:00:00''"

section \<open>Webhook receiver (webhooks/receiver.py)\<close>

text \<open>\<open>@dataclass class WebhookEvent\<close>. The fields hold what \<open>payload.get\<close> returns.\<close>

record WebhookEvent =
  wh_event_id :: json
  network :: string
  wh_tx_hash :: json
  wh_confirmation_count :: json
  wh_timestamp :: json
  wh_event_type :: json
  wh_data :: "(string \<times> json) list"
  received_at :: string

text \<open>
  The document of \<open>webhook_events.json\<close>: the keys \<open>events\<close> and \<open>processed_ids\<close>. The
  file is created by \<open>_init_event_storage\<close> and written only through \<open>_save_events\<close>; it
  holds a document, or (\<open>None\<close>) is missing or holds text that does not decode.
\<close>

record EventsDocument =
  doc_events :: "WebhookEvent list"
  processed_ids :: "json list"

record WebhookReceiver =
  webhook_secret :: string
  events_file :: "EventsDocument option"

record Request =
  body :: string
  signature :: string

text \<open>A \<open>web.json_response\<close>: the status and the JSON object of the body.\<close>

type_synonym response = "int \<times> (string \<times> json) list"

text \<open>\<open>dict.get(key, default)\<close>.\<close>

definition dict_get :: "(string \<times> json) list \<Rightarrow> string \<Rightarrow> json \<Rightarrow> json" where
  "dict_get d k dflt = (case map_of d k of None \<Rightarrow> dflt | Some v \<Rightarrow> v)"

text \<open>Python's truth value of a JSON value, as \<open>not event_id\<close> tests it.\<close>

fun truthy :: "json \<Rightarrow> bool" where
  "truthy JNull = False"
| "truthy (JBool b) = b"
| "truthy (JInt n) = (n \<noteq> 0)"
| "truthy (JStr s) = (s \<noteq> [])"
| "truthy (JList xs) = (xs \<noteq> [])"
| "truthy (JDict kvs) = (kvs \<noteq> [])"

text \<open>\<open>str.upper\<close> on ASCII letters.\<close>

definition to_upper :: "char \<Rightarrow> char" where
  "to_upper c =
     (case map_of (zip ''abcdefghijklmnopqrstuvwxyz'' ''ABCDEFGHIJKLMNOPQRSTUVWXYZ'') c of
        None \<Rightarrow> c
      | Some u \<Rightarrow> u)"

definition upper :: "string \<Rightarrow> string" where
  "upper s = map to_upper s"

text \<open>
  What one \<open>Path.write_text\<close> does. \<open>write_text\<close> opens the file for writing, which
  empties it, and then writes: when the open itself raises (no permission, read-only file
  system) the file keeps its content; when the error comes after the open (disk full) the
  file is left truncated and no longer decodes.
\<close>

datatype write_outcome = Written | FailedIntact | FailedTruncated

text \<open>
  \<open>_load_events\<close>: a missing or undecodable file gives the empty default document.
\<close>

definition load_events :: "WebhookReceiver \<Rightarrow> EventsDocument" where
  "load_events r =
     (case events_file r of
        None \<Rightarrow> \<lparr>doc_events = [], processed_ids = []\<rparr>
      | Some d \<Rightarrow> d)"

text \<open>
  \<open>_save_events\<close>: the \<open>IOError\<close> of a failed write is logged and not raised again.
\<close>

definition save_events ::
    "write_outcome \<Rightarrow> EventsDocument \<Rightarrow> WebhookReceiver \<Rightarrow> WebhookReceiver" where
  "save_events w d r =
     (case w of
        Written \<Rightarrow> r\<lparr>events_file := Some d\<rparr>
      | FailedIntact \<Rightarrow> r
      | FailedTruncated \<Rightarrow> r\<lparr>events_file := None\<rparr>)"

text \<open>
  \<open>_verify_signature\<close>; \<open>hmac_hex key msg\<close> stands for
  \<open>hmac.new(key, msg, hashlib.sha256).hexdigest()\<close>.
\<close>

definition verify_signature ::
    "(string \<Rightarrow> string \<Rightarrow> string) \<Rightarrow> WebhookReceiver \<Rightarrow> string \<Rightarrow> string \<Rightarrow> bool" where
  "verify_signature hmac_hex r payload sig =
     (if webhook_secret r = [] then True
      else hmac_hex (webhook_secret r) payload = sig)"

text \<open>\<open>_check_idempotency\<close>: true when the id is new.\<close>

definition check_idempotency :: "WebhookReceiver \<Rightarrow> json \<Rightarrow> bool" where
  "check_idempotency r eid = (eid \<notin> set (processed_ids (load_events r)))"

text \<open>\<open>_mark_processed\<close>.\<close>

definition mark_processed ::
    "write_outcome \<Rightarrow> json \<Rightarrow> WebhookReceiver \<Rightarrow> WebhookReceiver" where
  "mark_processed w eid r =
     (let d = load_events r
      in if eid \<notin> set (processed_ids d)
         then save_events w (d\<lparr>processed_ids := processed_ids d @ [eid]\<rparr>) r
         else r)"

text \<open>The four parsers; \<open>payload.get(k)\<close> without default gives \<open>None\<close>.\<close>

definition parse_common ::
    "string \<Rightarrow> (string \<times> json) list \<Rightarrow> string \<Rightarrow> (string \<times> json) list \<Rightarrow> WebhookEvent" where
  "parse_common net dat now payload =
     \<lparr>wh_event_id = dict_get payload ''event_id'' (JStr []),
      network = net,
      wh_tx_hash = dict_get payload ''tx_hash'' (JStr []),
      wh_confirmation_count = dict_get payload ''confirmations'' (JInt 0),
      wh_timestamp = dict_get payload ''timestamp'' (JStr []),
      wh_event_type = dict_get payload ''type'' (JStr ''transaction''),
      wh_data = dat,
      received_at = now\<rparr>"

definition parse_ethereum_event :: "string \<Rightarrow> (string \<times> json) list \<Rightarrow> WebhookEvent" where
  "parse_ethereum_event now payload =
     parse_common ''ETH''
       [(''from'', dict_get payload ''from'' JNull),
        (''to'', dict_get payload ''to'' JNull),
        (''value'', dict_get payload ''value'' JNull),
        (''gas_price'', dict_get payload ''gas_price'' JNull),
        (''gas_used'', dict_get payload ''gas_used'' JNull)] now payload"

definition parse_bitcoin_event :: "string \<Rightarrow> (string \<times> json) list \<Rightarrow> WebhookEvent" where
  "parse_bitcoin_event now payload =
     parse_common ''BTC''
       [(''inputs'', dict_get payload ''inputs'' (JList [])),
        (''outputs'', dict_get payload ''outputs'' (JList [])),
        (''fee'', dict_get payload ''fee'' JNull),
        (''size'', dict_get payload ''size'' JNull)] now payload"

definition parse_solana_event :: "string \<Rightarrow> (string \<times> json) list \<Rightarrow> WebhookEvent" where
  "parse_solana_event now payload =
     parse_common ''SOL''
       [(''accounts'', dict_get payload ''accounts'' (JList [])),
        (''instructions'', dict_get payload ''instructions'' (JList [])),
        (''fee'', dict_get payload ''fee'' JNull),
        (''slot'', dict_get payload ''slot'' JNull)] now payload"

definition parse_litecoin_event :: "string \<Rightarrow> (string \<times> json) list \<Rightarrow> WebhookEvent" where
  "parse_litecoin_event now payload =
     parse_common ''LTC''
       [(''inputs'', dict_get payload ''inputs'' (JList [])),
        (''outputs'', dict_get payload ''outputs'' (JList [])),
        (''fee'', dict_get payload ''fee'' JNull),
        (''size'', dict_get payload ''size'' JNull)] now payload"

text \<open>
  \<open>_parse_event\<close>. \<open>payload.get("network", "").upper()\<close> raises \<open>AttributeError\<close> when the
  field is not a string; that exception leaves \<open>_parse_event\<close>.
\<close>

definition parse_event ::
    "string \<Rightarrow> (string \<times> json) list \<Rightarrow> exn + WebhookEvent option" where
  "parse_event now payload =
     (case dict_get payload ''network'' (JStr []) of
        JStr s \<Rightarrow>
          (let net = upper s
           in if net = ''ETH'' then Inr (Some (parse_ethereum_event now payload))
              else if net = ''BTC'' then Inr (Some (parse_bitcoin_event now payload))
              else if net = ''SOL'' then Inr (Some (parse_solana_event now payload))
              else if net = ''LTC'' then Inr (Some (parse_litecoin_event now payload))
              else Inr None)
      | _ \<Rightarrow> Inl (Exception ''AttributeError''))"

text \<open>What \<open>json.loads(body)\<close> does: a value, \<open>JSONDecodeError\<close>, or another exception.\<close>

datatype loads_result = Loaded json | JSONDecodeError | LoadsRaised

definition error_response :: "int \<Rightarrow> string \<Rightarrow> response" where
  "error_response code msg = (code, [(''error'', JStr msg)])"

text \<open>
  \<open>WebhookReceiver.handle_webhook\<close>. \<open>json_loads\<close> stands for \<open>json.loads\<close>; \<open>w1\<close> and
  \<open>w2\<close> say what the write of the event store and the write of \<open>_mark_processed\<close> do.
  An exception that reaches the outer \<open>except\<close> gives status 500.
\<close>

definition handle_webhook ::
    "(string \<Rightarrow> string \<Rightarrow> string) \<Rightarrow> (string \<Rightarrow> loads_result) \<Rightarrow> string
      \<Rightarrow> write_outcome \<Rightarrow> write_outcome
      \<Rightarrow> Request \<Rightarrow> WebhookReceiver \<Rightarrow> response \<times> WebhookReceiver" where
  "handle_webhook hmac_hex json_loads now w1 w2 request r =
     (if \<not> verify_signature hmac_hex r (body request) (signature request)
      then (error_response 401 ''Invalid signature'', r)
      else case json_loads (body request) of
        JSONDecodeError \<Rightarrow> (error_response 400 ''Invalid JSON'', r)
      | LoadsRaised \<Rightarrow> (error_response 500 ''Internal server error'', r)
      | Loaded (JDict payload) \<Rightarrow>
          (let eid = dict_get payload ''event_id'' JNull
           in if \<not> truthy eid then (error_response 400 ''Missing event_id'', r)
              else if \<not> check_idempotency r eid
              then ((200, [(''status'', JStr ''duplicate''), (''event_id'', eid)]), r)
              else case parse_event now payload of
                Inl e \<Rightarrow> (error_response 500 ''Internal server error'', r)
              | Inr None \<Rightarrow> (error_response 400 ''Failed to parse event'', r)
              | Inr (Some event) \<Rightarrow>
                  (let d = load_events r;
                       r1 = save_events w1 (d\<lparr>doc_events := doc_events d @ [event]\<rparr>) r;
                       r2 = mark_processed w2 eid r1
                   in ((200, [(''status'', JStr ''received''), (''event_id'', eid),
                              (''network'', JStr (network event)),
                              (''tx_hash'', wh_tx_hash event)]), r2)))
      | Loaded _ \<Rightarrow> (error_response 500 ''Internal server error'', r))"

text \<open>The outcomes the specification names.\<close>

definition is_received :: "response \<Rightarrow> bool" where
  "is_received resp = (fst resp = 200 \<and> map_of (snd resp) ''status'' = Some (JStr ''received''))"

definition is_duplicate :: "response \<Rightarrow> bool" where
  "is_duplicate resp = (fst resp = 200 \<and> map_of (snd resp) ''status'' = Some (JStr ''duplicate''))"


definition in_ledger :: "WebhookReceiver \<Rightarrow> json \<Rightarrow> bool" where
  "in_ledger r eid = (eid \<in> set (processed_ids (load_events r)))"

definition ex_receiver :: WebhookReceiver where
  "ex_receiver = \<lparr>webhook_secret = ''s3cret'',
     events_file = Some \<lparr>doc_events = [], processed_ids = []\<rparr>\<rparr>"

definition ex_payload :: "(string \<times> json) list" where
  "ex_payload = [(''event_id'', JStr ''evt_001''), (''network'', JStr ''eth''),
     (''tx_hash'', JStr ''0xabc123''), (''confirmations'', JInt 1),
     (''timestamp'', JStr ''2024-01-01T00:00:00''), (''type'', JStr ''confirmation'')]"

definition ex_request :: Request where
  "ex_request = \<lparr>body = ''{...}'', signature = ''abcd''\<rparr>"

definition ex_hmac :: "string \<Rightarrow> string \<Rightarrow> string" where
  "ex_hmac key msg = ''abcd''"

definition ex_loads :: "string \<Rightarrow> loads_result" where
  "ex_loads b = Loaded (JDict ex_payload)"

section \<open>RPC client (blockchain/rpc\_client.py)\<close>


text \<open>The client's configuration; Python's \<open>float\<close> is idealised as \<open>real\<close>.\<close>

record RPCClient =
  eth_rpc_url :: "string option"
  btc_rpc_url :: "string option"
  sol_rpc_url :: "string option"
  ltc_rpc_url :: "string option"
  timeout :: real
  rpc_max_retries :: int
  backoff_factor :: real

text \<open>
  The \<open>error\<close> entry of a JSON-RPC response object: no such key, \<open>null\<close>, an object with
  an optional \<open>message\<close>, or a value that is not an object.
\<close>

datatype error_field = NoErrorKey | ErrorNull | ErrorObject "string option" | ErrorNotObject

record rpc_data =
  error_key :: error_field
  result :: json

text \<open>
  What one \<open>session.request\<close> with \<open>response.json()\<close> does: a response with its status
  and decoded body, \<open>asyncio.TimeoutError\<close>, an \<open>aiohttp.ClientError\<close> with its text, or
  any other exception.
\<close>

datatype http_outcome = Responded int rpc_data | TimeoutError | ClientError string
  | OtherError string

text \<open>
  The network seen by the client: the outcome of the request with the given number, URL,
  payload and total timeout.
\<close>

type_synonym transport = "nat \<Rightarrow> string \<Rightarrow> json \<Rightarrow> real \<Rightarrow> http_outcome"

text \<open>
  The exceptions \<open>_make_request\<close> raises: the three classes of the module (the timeout
  fault carries the timeout of its message), and an exception that no clause catches.
\<close>

datatype rpc_exn = RPCError string | RPCConnectionError string | RPCTimeoutError real
  | Uncaught string

text \<open>What the client does, in order: requests and sleeps.\<close>

datatype action = Request nat string json real | Sleep real

text \<open>The body of the \<open>try\<close> of one attempt and its \<open>except\<close> clauses.\<close>

datatype attempt_result = Return rpc_data | Caught rpc_exn | Escaped rpc_exn

definition try_attempt :: "RPCClient \<Rightarrow> http_outcome \<Rightarrow> attempt_result" where
  "try_attempt c outcome =
     (case outcome of
        Responded st d \<Rightarrow>
          (case error_key d of
             NoErrorKey \<Rightarrow> Return d
           | ErrorNull \<Rightarrow> Return d
           | ErrorObject m \<Rightarrow>
               Caught (RPCError (''RPC error: '' @
                 (case m of None \<Rightarrow> ''Unknown error'' | Some s \<Rightarrow> s)))
           | ErrorNotObject \<Rightarrow> Escaped (Uncaught ''AttributeError''))
      | TimeoutError \<Rightarrow> Caught (RPCTimeoutError (timeout c))
      | ClientError s \<Rightarrow> Caught (RPCConnectionError (''Connection error: '' @ s))
      | OtherError s \<Rightarrow> Escaped (Uncaught s))"

text \<open>The sleep after a failed attempt: \<open>if attempt < self.max_retries - 1\<close>.\<close>

definition backoff :: "RPCClient \<Rightarrow> nat \<Rightarrow> action list" where
  "backoff c attempt =
     (if int attempt < rpc_max_retries c - 1 then [Sleep (backoff_factor c ^ attempt)] else [])"

text \<open>
  The loop \<open>for attempt in range(self.max_retries)\<close> of \<open>_make_request\<close> over the attempt
  numbers still to run, with \<open>last_error\<close>; it returns the result and the actions taken.
\<close>

fun request_loop :: "transport \<Rightarrow> RPCClient \<Rightarrow> string \<Rightarrow> json \<Rightarrow> nat list
    \<Rightarrow> rpc_exn option \<Rightarrow> (rpc_exn + rpc_data) \<times> action list" where
  "request_loop send c url payload [] last_error =
     (Inl (case last_error of
             None \<Rightarrow> RPCConnectionError ''Failed to connect to RPC endpoint''
           | Some e \<Rightarrow> e), [])"
| "request_loop send c url payload (attempt # rest) last_error =
     (case try_attempt c (send attempt url payload (timeout c)) of
        Return d \<Rightarrow> (Inr d, [Request attempt url payload (timeout c)])
      | Escaped e \<Rightarrow> (Inl e, [Request attempt url payload (timeout c)])
      | Caught e \<Rightarrow>
          (case request_loop send c url payload rest (Some e) of
             (res, acts) \<Rightarrow>
               (res, Request attempt url payload (timeout c) # backoff c attempt @ acts)))"

text \<open>\<open>RPCClient._make_request\<close>; \<open>not url\<close> holds for \<open>None\<close> and for the empty string.\<close>

definition make_request :: "transport \<Rightarrow> RPCClient \<Rightarrow> string option \<Rightarrow> json
    \<Rightarrow> (rpc_exn + rpc_data) \<times> action list" where
  "make_request send c url payload =
     (case url of
        None \<Rightarrow> (Inl (RPCConnectionError ''RPC URL not configured''), [])
      | Some u \<Rightarrow>
          if u = [] then (Inl (RPCConnectionError ''RPC URL not configured''), [])
          else request_loop send c u payload [0 ..< nat (rpc_max_retries c)] None)"






definition ex_client :: RPCClient where
  "ex_client = \<lparr>eth_rpc_url = Some ''http://eth'', btc_rpc_url = None, sol_rpc_url = None,
     ltc_rpc_url = None, timeout = 10, rpc_max_retries = 3, backoff_factor = 2\<rparr>"

definition refusing :: transport where
  "refusing = (\<lambda>n url payload t. ClientError ''refused'')"

definition answering :: "int \<Rightarrow> error_field \<Rightarrow> transport" where
  "answering st e = (\<lambda>n url payload t. Responded st \<lparr>error_key = e, result = JNull\<rparr>)"

definition undecodable :: transport where
  "undecodable = (\<lambda>n url payload t. OtherError ''Invalid JSON'')"

text \<open>
  The fault the specification assigns to a failed attempt: a timeout fault, a connection
  fault with the text of the transport error, or a protocol fault with the message of the
  error object. Any other outcome has none.
\<close>

fun classified_fault :: "real \<Rightarrow> http_outcome \<Rightarrow> rpc_exn option" where
  "classified_fault t TimeoutError = Some (RPCTimeoutError t)"
| "classified_fault t (ClientError s) = Some (RPCConnectionError (''Connection error: '' @ s))"
| "classified_fault t (Responded st d) =
     (case error_key d of
        ErrorObject m \<Rightarrow>
          Some (RPCError (''RPC error: '' @
            (case m of None \<Rightarrow> ''Unknown error'' | Some s \<Rightarrow> s)))
      | _ \<Rightarrow> None)"
| "classified_fault t (OtherError s) = None"

text \<open>The faults of the module, as opposed to an exception that merely passes through.\<close>

fun typed_fault :: "rpc_exn \<Rightarrow> bool" where
  "typed_fault (RPCError m) = True"
| "typed_fault (RPCConnectionError m) = True"
| "typed_fault (RPCTimeoutError t) = True"
| "typed_fault (Uncaught m) = False"

section \<open>Properties of the event processor\<close>

lemma get_trade_status_process_event:
  "get_trade_status (process_event now ev p) (trade_id ev) =
     Some (update_trade (confirmation_threshold p) now ev (get_or_create now ev p))"
  by (simp add: get_trade_status_def process_event_def)

text \<open>
  C9. A trade whose status is FAILED is not terminal for the processor: an event of type
  \<open>final_confirmation\<close> whose confirmation count reaches the threshold sets the status to
  COMPLETED and records \<open>completed_at\<close>, because the completion branch never reads the
  current status.
\<close>

theorem failed_trade_completes:
  assumes "get_trade_status p (trade_id ev) = Some t"
    and "status t = FAILED"
    and "event_type ev = ''final_confirmation''"
    and "confirmation_count ev \<ge> confirmation_threshold p"
  shows "\<exists>t'. get_trade_status (process_event now ev p) (trade_id ev) = Some t'
            \<and> status t' = COMPLETED \<and> completed_at t' = Some now"
  using assms
  by (simp add: get_trade_status_def process_event_def get_or_create_def
      update_trade_def Let_def)

theorem failed_trade_completes_witness:
  "get_trade_status (ex_processor_with (ex_trade FAILED 0))
       (trade_id (ex_event 3 ''final_confirmation'')) = Some (ex_trade FAILED 0)
   \<and> status (ex_trade FAILED 0) = FAILED
   \<and> event_type (ex_event 3 ''final_confirmation'') = ''final_confirmation''
   \<and> confirmation_count (ex_event 3 ''final_confirmation'')
        \<ge> confirmation_threshold (ex_processor_with (ex_trade FAILED 0))
   \<and> (\<exists>t'. get_trade_status
              (process_event ''2024-01-02T00:00:00'' (ex_event 3 ''final_confirmation'')
                 (ex_processor_with (ex_trade FAILED 0)))
              (trade_id (ex_event 3 ''final_confirmation'')) = Some t'
          \<and> status t' = COMPLETED \<and> completed_at t' = Some ''2024-01-02T00:00:00'')"
proof -
  have h1: "get_trade_status (ex_processor_with (ex_trade FAILED 0))
       (trade_id (ex_event 3 ''final_confirmation'')) = Some (ex_trade FAILED 0)"
    by (simp add: get_trade_status_def ex_processor_with_def ex_processor_def ex_event_def)
  have h2: "status (ex_trade FAILED 0) = FAILED"
    by (simp add: ex_trade_def)
  have h3: "event_type (ex_event 3 ''final_confirmation'') = ''final_confirmation''"
    by (simp add: ex_event_def)
  have h4: "confirmation_count (ex_event 3 ''final_confirmation'')
        \<ge> confirmation_threshold (ex_processor_with (ex_trade FAILED 0))"
    by (simp add: ex_event_def ex_processor_with_def ex_processor_def)
  from failed_trade_completes [OF h1 h2 h3 h4, of "''2024-01-02T00:00:00''"] h1 h2 h3 h4
  show ?thesis by blast
qed

lemma threshold_process_event:
  "confirmation_threshold (process_event now ev p) = confirmation_threshold p"
  by (simp add: process_event_def)

lemma threshold_process_events:
  "confirmation_threshold (process_events evs p) = confirmation_threshold p"
  by (induction evs p rule: process_events.induct) (simp_all add: threshold_process_event)

lemma trades_process_event_other:
  "trade_id ev \<noteq> tid \<Longrightarrow> trades (process_event now ev p) tid = trades p tid"
  by (simp add: process_event_def)

lemma trades_process_event_same:
  "trades (process_event now ev p) (trade_id ev) =
     Some (update_trade (confirmation_threshold p) now ev (get_or_create now ev p))"
  by (simp add: process_event_def)

lemma update_trade_confirmations:
  "confirmations (update_trade thr now ev t) = max (confirmations t) (confirmation_count ev)"
  by (simp add: update_trade_def Let_def)

lemma update_trade_status:
  "status (update_trade thr now ev t) =
     (if thr \<le> confirmation_count ev then
        (if event_type ev = ''final_confirmation'' then COMPLETED
         else if status t = PENDING then CONFIRMED else status t)
      else status t)"
  by (simp add: update_trade_def Let_def)

lemma update_trade_completed_at:
  "completed_at (update_trade thr now ev t) =
     (if thr \<le> confirmation_count ev \<and> event_type ev = ''final_confirmation''
      then Some now else completed_at t)"
  by (simp add: update_trade_def Let_def)

lemma update_trade_confirmed_at:
  "confirmed_at (update_trade thr now ev t) =
     (if thr \<le> confirmation_count ev \<and> status t = PENDING
      then Some now else confirmed_at t)"
  by (simp add: update_trade_def Let_def)

lemma update_trade_events:
  "events (update_trade thr now ev t) = events t @ [event_summary ev]"
  by (simp add: update_trade_def Let_def)

lemma forward_refl: "forward s s"
  by (cases s) simp_all

lemma forward_trans: "forward a b \<Longrightarrow> forward b c \<Longrightarrow> forward a c"
  by (cases a; cases b; cases c) simp_all

lemma update_trade_forward:
  "status t \<noteq> FAILED \<Longrightarrow> forward (status t) (status (update_trade thr now ev t))"
  by (cases "status t") (simp_all add: update_trade_status)

lemma update_trade_not_failed:
  "status t \<noteq> FAILED \<Longrightarrow> status (update_trade thr now ev t) \<noteq> FAILED"
  by (simp add: update_trade_status)

lemma process_event_step:
  assumes "trades p tid = Some t"
  shows "\<exists>t'. trades (process_event now ev p) tid = Some t'
           \<and> confirmations t \<le> confirmations t'
           \<and> (status t \<noteq> FAILED \<longrightarrow> forward (status t) (status t') \<and> status t' \<noteq> FAILED)"
proof (cases "trade_id ev = tid")
  case True
  then have g: "get_or_create now ev p = t"
    using assms by (simp add: get_or_create_def)
  show ?thesis
    using True g trades_process_event_same [of now ev p]
    by (auto simp: update_trade_confirmations update_trade_forward update_trade_not_failed)
next
  case False
  then show ?thesis
    using assms by (simp add: trades_process_event_other forward_refl)
qed

lemma process_events_steps:
  "trades p tid = Some t \<Longrightarrow>
   \<exists>t'. trades (process_events evs p) tid = Some t'
           \<and> confirmations t \<le> confirmations t'
           \<and> (status t \<noteq> FAILED \<longrightarrow> forward (status t) (status t') \<and> status t' \<noteq> FAILED)"
proof (induction evs p arbitrary: t rule: process_events.induct)
  case (1 p)
  then show ?case by (simp add: forward_refl)
next
  case (2 now ev rest p)
  from process_event_step [OF "2.prems", of now ev]
  obtain t1 where t1: "trades (process_event now ev p) tid = Some t1"
    and c1: "confirmations t \<le> confirmations t1"
    and s1: "status t \<noteq> FAILED \<longrightarrow> forward (status t) (status t1) \<and> status t1 \<noteq> FAILED"
    by blast
  from "2.IH" [OF t1]
  obtain t2 where t2: "trades (process_events rest (process_event now ev p)) tid = Some t2"
    and c2: "confirmations t1 \<le> confirmations t2"
    and s2: "status t1 \<noteq> FAILED \<longrightarrow> forward (status t1) (status t2) \<and> status t2 \<noteq> FAILED"
    by blast
  show ?case
    using t2 c1 c2 s1 s2 by (auto intro: forward_trans)
qed

lemma process_events_fresh:
  "trades p tid = None \<Longrightarrow>
   (case trades (process_events evs p) tid of None \<Rightarrow> True
    | Some t' \<Rightarrow> status t' \<noteq> FAILED \<and> 0 \<le> confirmations t')"
proof (induction evs p rule: process_events.induct)
  case (1 p)
  then show ?case by simp
next
  case (2 now ev rest p)
  show ?case
  proof (cases "trade_id ev = tid")
    case False
    then show ?thesis using 2 by (simp add: trades_process_event_other)
  next
    case True
    have g: "get_or_create now ev p = new_trade now"
      using True "2.prems" by (simp add: get_or_create_def)
    let ?t1 = "update_trade (confirmation_threshold p) now ev (new_trade now)"
    have t1: "trades (process_event now ev p) tid = Some ?t1"
      using True g trades_process_event_same [of now ev p] by simp
    have a: "status ?t1 \<noteq> FAILED" by (simp add: update_trade_status new_trade_def)
    have b: "0 \<le> confirmations ?t1" by (simp add: update_trade_confirmations new_trade_def)
    from process_events_steps [OF t1, of rest] a b
    show ?thesis by auto
  qed
qed


lemma below_threshold_stays_pending:
  "\<forall>(n, e) \<in> set evs. confirmation_count e < confirmation_threshold p \<Longrightarrow>
   (case trades p tid of None \<Rightarrow> True | Some t \<Rightarrow> status t = PENDING) \<Longrightarrow>
   (case trades (process_events evs p) tid of None \<Rightarrow> True | Some t \<Rightarrow> status t = PENDING)"
proof (induction evs p rule: process_events.induct)
  case (1 p)
  then show ?case by simp
next
  case (2 now ev rest p)
  have lt: "confirmation_count ev < confirmation_threshold p"
    using "2.prems"(1) by simp
  have rest: "\<forall>(n, e) \<in> set rest.
      confirmation_count e < confirmation_threshold (process_event now ev p)"
    using "2.prems"(1) by (simp add: threshold_process_event)
  have st: "case trades (process_event now ev p) tid of None \<Rightarrow> True
            | Some t \<Rightarrow> status t = PENDING"
  proof (cases "trade_id ev = tid")
    case False
    then show ?thesis using "2.prems"(2) by (simp add: trades_process_event_other)
  next
    case True
    have "status (get_or_create now ev p) = PENDING"
      using True "2.prems"(2)
      by (simp add: get_or_create_def new_trade_def split: option.splits)
    then show ?thesis
      using True lt trades_process_event_same [of now ev p]
      by (simp add: update_trade_status)
  qed
  from "2.IH" [OF rest st] show ?case by simp
qed

text \<open>
  C1, as the code has it. The status is COMPLETED after an event exactly when that event
  is of type \<open>final_confirmation\<close> and its own confirmation count reaches the threshold
  (or the trade was COMPLETED already); \<open>completed_at\<close> is then the processing time. An
  event of another type whose count reaches the threshold leaves a PENDING or CONFIRMED
  trade CONFIRMED. An event whose own count is below the threshold changes neither the
  status nor \<open>completed_at\<close>, whatever the accumulated confirmations of the trade are.
\<close>

theorem completion_rule:
  assumes "get_trade_status (process_event now ev p) (trade_id ev) = Some t'"
  shows "((status t' = COMPLETED) =
            (event_type ev = ''final_confirmation''
               \<and> confirmation_threshold p \<le> confirmation_count ev
             \<or> status (get_or_create now ev p) = COMPLETED))
       \<and> completed_at t' =
            (if event_type ev = ''final_confirmation''
                \<and> confirmation_threshold p \<le> confirmation_count ev
             then Some now else completed_at (get_or_create now ev p))
       \<and> (confirmation_threshold p \<le> confirmation_count ev
            \<and> event_type ev \<noteq> ''final_confirmation''
            \<and> (status (get_or_create now ev p) = PENDING
                 \<or> status (get_or_create now ev p) = CONFIRMED)
          \<longrightarrow> status t' = CONFIRMED)
       \<and> (confirmation_count ev < confirmation_threshold p
          \<longrightarrow> status t' = status (get_or_create now ev p)
              \<and> completed_at t' = completed_at (get_or_create now ev p))"
proof -
  have t': "t' = update_trade (confirmation_threshold p) now ev (get_or_create now ev p)"
    using assms trades_process_event_same [of now ev p]
    by (simp add: get_trade_status_def)
  show ?thesis
    unfolding t' by (auto simp: update_trade_status update_trade_completed_at)
qed

theorem completion_rule_witness:
  "get_trade_status
     (process_event ex_now (ex_event 3 ''final_confirmation'')
        (ex_processor_with (ex_trade CONFIRMED 3)))
     (trade_id (ex_event 3 ''final_confirmation''))
     = Some (update_trade 3 ex_now (ex_event 3 ''final_confirmation'') (ex_trade CONFIRMED 3))
   \<and> status (update_trade 3 ex_now (ex_event 3 ''final_confirmation'')
        (ex_trade CONFIRMED 3)) = COMPLETED
   \<and> completed_at (update_trade 3 ex_now (ex_event 3 ''final_confirmation'')
        (ex_trade CONFIRMED 3)) = Some ex_now"
proof -
  let ?ev = "ex_event 3 ''final_confirmation''"
  let ?p = "ex_processor_with (ex_trade CONFIRMED 3)"
  let ?t' = "update_trade 3 ex_now ?ev (ex_trade CONFIRMED 3)"
  have h: "get_trade_status (process_event ex_now ?ev ?p) (trade_id ?ev) = Some ?t'"
    by (simp add: get_trade_status_def process_event_def get_or_create_def
        ex_processor_with_def ex_processor_def ex_event_def)
  have ty: "event_type ?ev = ''final_confirmation''"
    by (simp add: ex_event_def)
  have ge: "confirmation_threshold ?p \<le> confirmation_count ?ev"
    by (simp add: ex_event_def ex_processor_with_def ex_processor_def)
  from completion_rule [OF h] ty ge
  have "status ?t' = COMPLETED" and "completed_at ?t' = Some ex_now"
    by simp_all
  with h show ?thesis by blast
qed

text \<open>
  C1 as stated fails: threshold 3, a CONFIRMED trade with 5 accumulated confirmations, and
  a \<open>final_confirmation\<close> event that itself reports 2 confirmations. The trade stays
  CONFIRMED and no \<open>completed_at\<close> is written.
\<close>

theorem completion_counterexample:
  "confirmation_threshold (ex_processor_with (ex_trade CONFIRMED 5))
      \<le> confirmations (ex_trade CONFIRMED 5)
   \<and> event_type (ex_event 2 ''final_confirmation'') = ''final_confirmation''
   \<and> get_trade_status
       (process_event ex_now (ex_event 2 ''final_confirmation'')
          (ex_processor_with (ex_trade CONFIRMED 5))) ''trade_001''
     = Some ((ex_trade CONFIRMED 5)
         \<lparr>events := [event_summary (ex_event 2 ''final_confirmation'')]\<rparr>)
   \<and> status ((ex_trade CONFIRMED 5)
         \<lparr>events := [event_summary (ex_event 2 ''final_confirmation'')]\<rparr>) = CONFIRMED
   \<and> completed_at ((ex_trade CONFIRMED 5)
         \<lparr>events := [event_summary (ex_event 2 ''final_confirmation'')]\<rparr>) = None"
  by (simp add: get_trade_status_def process_event_def get_or_create_def update_trade_def
      ex_processor_with_def ex_processor_def ex_event_def ex_trade_def Let_def)

text \<open>
  C3. Over any sequence of processed events, for any trade in the store: the record stays
  in the store, its \<open>confirmations\<close> do not decrease, and its status moves only forward
  along PENDING, CONFIRMED, COMPLETED, so that a CONFIRMED trade never becomes PENDING
  again and a COMPLETED trade stays COMPLETED. One event sets \<open>confirmations\<close> to the
  maximum of the old value (0 for a new trade) and the event's count. A trade created
  during the run is never FAILED.
\<close>

theorem monotonic_progress:
  "(get_trade_status p tid = Some t \<longrightarrow>
      (\<exists>t'. get_trade_status (process_events evs p) tid = Some t'
         \<and> confirmations t \<le> confirmations t'
         \<and> (status t \<noteq> FAILED \<longrightarrow> forward (status t) (status t'))
         \<and> (status t = CONFIRMED \<longrightarrow> status t' = CONFIRMED \<or> status t' = COMPLETED)
         \<and> (status t = COMPLETED \<longrightarrow> status t' = COMPLETED)))
   \<and> (get_trade_status p tid = None \<longrightarrow>
        (case get_trade_status (process_events evs p) tid of
           None \<Rightarrow> True
         | Some t' \<Rightarrow> status t' \<noteq> FAILED \<and> 0 \<le> confirmations t'))
   \<and> map_option confirmations (get_trade_status (process_event now ev p) (trade_id ev))
        = Some (max (confirmations (get_or_create now ev p)) (confirmation_count ev))
   \<and> confirmations (new_trade now) = 0"
proof (intro conjI impI)
  assume a: "get_trade_status p tid = Some t"
  then have "trades p tid = Some t" by (simp add: get_trade_status_def)
  from process_events_steps [OF this, of evs]
  obtain t' where t': "trades (process_events evs p) tid = Some t'"
    and c: "confirmations t \<le> confirmations t'"
    and s: "status t \<noteq> FAILED \<longrightarrow> forward (status t) (status t') \<and> status t' \<noteq> FAILED"
    by blast
  have "status t = CONFIRMED \<longrightarrow> status t' = CONFIRMED \<or> status t' = COMPLETED"
    using s by auto
  moreover have "status t = COMPLETED \<longrightarrow> status t' = COMPLETED"
    using s by auto
  ultimately show "\<exists>t'. get_trade_status (process_events evs p) tid = Some t'
         \<and> confirmations t \<le> confirmations t'
         \<and> (status t \<noteq> FAILED \<longrightarrow> forward (status t) (status t'))
         \<and> (status t = CONFIRMED \<longrightarrow> status t' = CONFIRMED \<or> status t' = COMPLETED)
         \<and> (status t = COMPLETED \<longrightarrow> status t' = COMPLETED)"
    using t' c s by (auto simp: get_trade_status_def)
next
  assume "get_trade_status p tid = None"
  then have "trades p tid = None" by (simp add: get_trade_status_def)
  from process_events_fresh [OF this, of evs]
  show "case get_trade_status (process_events evs p) tid of
           None \<Rightarrow> True
         | Some t' \<Rightarrow> status t' \<noteq> FAILED \<and> 0 \<le> confirmations t'"
    by (simp add: get_trade_status_def)
next
  show "map_option confirmations (get_trade_status (process_event now ev p) (trade_id ev))
        = Some (max (confirmations (get_or_create now ev p)) (confirmation_count ev))"
    by (simp add: get_trade_status_def trades_process_event_same update_trade_confirmations)
next
  show "confirmations (new_trade now) = 0"
    by (simp add: new_trade_def)
qed

text \<open>
  An instance with events out of order: a CONFIRMED trade with 5 confirmations receives an
  event reporting 2 and then one reporting 4; it stays CONFIRMED with 5 confirmations.
\<close>

theorem monotonic_progress_witness:
  "get_trade_status (ex_processor_with (ex_trade CONFIRMED 5)) ''trade_001''
     = Some (ex_trade CONFIRMED 5)
   \<and> (\<exists>t'. get_trade_status
              (process_events [(ex_now, ex_event 2 ''confirmation''),
                               (ex_now, ex_event 4 ''confirmation'')]
                 (ex_processor_with (ex_trade CONFIRMED 5))) ''trade_001'' = Some t'
         \<and> confirmations (ex_trade CONFIRMED 5) \<le> confirmations t'
         \<and> (status t' = CONFIRMED \<or> status t' = COMPLETED))"
proof -
  let ?p = "ex_processor_with (ex_trade CONFIRMED 5)"
  let ?evs = "[(ex_now, ex_event 2 ''confirmation''), (ex_now, ex_event 4 ''confirmation'')]"
  have h: "get_trade_status ?p ''trade_001'' = Some (ex_trade CONFIRMED 5)"
    by (simp add: get_trade_status_def ex_processor_with_def ex_processor_def)
  have s: "status (ex_trade CONFIRMED 5) = CONFIRMED"
    by (simp add: ex_trade_def)
  from monotonic_progress [of ?p "''trade_001''" "ex_trade CONFIRMED 5" ?evs] h s
  have "\<exists>t'. get_trade_status (process_events ?evs ?p) ''trade_001'' = Some t'
         \<and> confirmations (ex_trade CONFIRMED 5) \<le> confirmations t'
         \<and> (status t' = CONFIRMED \<or> status t' = COMPLETED)"
    by blast
  with h show ?thesis by blast
qed

text \<open>
  C7, as the code has it. When the trade an event is applied to is PENDING (stored so, or
  new) and the event's count reaches the threshold, \<open>confirmed_at\<close> is recorded and the
  status is CONFIRMED, unless the event is of type \<open>final_confirmation\<close>: then the same
  call goes on to COMPLETED. This holds after any events that stayed below the threshold,
  so at the first event that reaches it; an event below the threshold leaves a PENDING
  trade PENDING.
\<close>

theorem confirmation_rule:
  assumes "\<forall>(n, e) \<in> set evs. confirmation_count e < confirmation_threshold p"
    and "status (get_or_create now ev p) = PENDING"
  shows "\<exists>t'. get_trade_status (process_event now ev (process_events evs p)) (trade_id ev)
                = Some t'
           \<and> (confirmation_threshold p \<le> confirmation_count ev \<longrightarrow>
                confirmed_at t' = Some now
                \<and> status t' = (if event_type ev = ''final_confirmation''
                               then COMPLETED else CONFIRMED))
           \<and> (confirmation_count ev < confirmation_threshold p \<longrightarrow> status t' = PENDING)"
proof -
  let ?q = "process_events evs p"
  have "case trades p (trade_id ev) of None \<Rightarrow> True | Some t \<Rightarrow> status t = PENDING"
    using assms(2) by (simp add: get_or_create_def split: option.splits)
  from below_threshold_stays_pending [OF assms(1) this]
  have pend: "status (get_or_create now ev ?q) = PENDING"
    by (simp add: get_or_create_def new_trade_def split: option.splits)
  have thr: "confirmation_threshold ?q = confirmation_threshold p"
    by (simp add: threshold_process_events)
  show ?thesis
    using pend trades_process_event_same [of now ev ?q]
    by (simp add: get_trade_status_def thr update_trade_status update_trade_confirmed_at)
qed

text \<open>
  With threshold 3: a count of 3 takes a new trade from PENDING to CONFIRMED, a count of 2
  leaves it PENDING.
\<close>

theorem confirmation_rule_witness:
  "confirmation_count (ex_event 1 ''confirmation'') < confirmation_threshold ex_processor
   \<and> status (get_or_create ex_now (ex_event 3 ''confirmation'') ex_processor) = PENDING
   \<and> confirmation_threshold ex_processor = 3
   \<and> (\<exists>t'. get_trade_status
              (process_event ex_now (ex_event 3 ''confirmation'')
                 (process_events [(ex_now, ex_event 1 ''confirmation'')] ex_processor))
              (trade_id (ex_event 3 ''confirmation'')) = Some t'
          \<and> confirmed_at t' = Some ex_now \<and> status t' = CONFIRMED)
   \<and> (\<exists>t'. get_trade_status
              (process_event ex_now (ex_event 2 ''confirmation'')
                 (process_events [(ex_now, ex_event 1 ''confirmation'')] ex_processor))
              (trade_id (ex_event 2 ''confirmation'')) = Some t'
          \<and> status t' = PENDING)"
proof -
  let ?evs = "[(ex_now, ex_event 1 ''confirmation'')]"
  have h1: "\<forall>(n, e) \<in> set ?evs. confirmation_count e < confirmation_threshold ex_processor"
    by (simp add: ex_event_def ex_processor_def)
  have h2: "status (get_or_create ex_now (ex_event 3 ''confirmation'') ex_processor) = PENDING"
    by (simp add: get_or_create_def ex_processor_def new_trade_def)
  have h2': "status (get_or_create ex_now (ex_event 2 ''confirmation'') ex_processor) = PENDING"
    by (simp add: get_or_create_def ex_processor_def new_trade_def)
  have thr: "confirmation_threshold ex_processor = 3"
    by (simp add: ex_processor_def)
  have ty: "event_type (ex_event 3 ''confirmation'') \<noteq> ''final_confirmation''"
    by (simp add: ex_event_def)
  have c3: "confirmation_threshold ex_processor \<le> confirmation_count (ex_event 3 ''confirmation'')"
    by (simp add: ex_event_def ex_processor_def)
  have c2: "confirmation_count (ex_event 2 ''confirmation'') < confirmation_threshold ex_processor"
    by (simp add: ex_event_def ex_processor_def)
  from confirmation_rule [OF h1 h2] ty c3
  have a: "\<exists>t'. get_trade_status
              (process_event ex_now (ex_event 3 ''confirmation'')
                 (process_events ?evs ex_processor))
              (trade_id (ex_event 3 ''confirmation'')) = Some t'
          \<and> confirmed_at t' = Some ex_now \<and> status t' = CONFIRMED"
    by auto
  from confirmation_rule [OF h1 h2'] c2
  have b: "\<exists>t'. get_trade_status
              (process_event ex_now (ex_event 2 ''confirmation'')
                 (process_events ?evs ex_processor))
              (trade_id (ex_event 2 ''confirmation'')) = Some t'
          \<and> status t' = PENDING"
    by auto
  have c1: "confirmation_count (ex_event 1 ''confirmation'') < confirmation_threshold ex_processor"
    by (simp add: ex_event_def ex_processor_def)
  from c1 h2 thr a b show ?thesis by blast
qed

text \<open>
  C7 as stated fails for an event that is both at the threshold and of the finality type:
  threshold 3, a new trade, a \<open>final_confirmation\<close> event reporting 3. The trade is
  COMPLETED after the call, not CONFIRMED.
\<close>

theorem confirmation_counterexample:
  "status (get_or_create ex_now (ex_event 3 ''final_confirmation'') ex_processor) = PENDING
   \<and> confirmation_threshold ex_processor \<le> confirmation_count (ex_event 3 ''final_confirmation'')
   \<and> map_option status
       (get_trade_status
          (process_event ex_now (ex_event 3 ''final_confirmation'') ex_processor)
          ''trade_001'') = Some COMPLETED"
  by (simp add: get_trade_status_def process_event_def get_or_create_def update_trade_def
      new_trade_def ex_processor_def ex_event_def Let_def)



subsection \<open>Dead letter queue\<close>

lemma pop_first_None: "(pop_first eid ds = None) = (eid \<notin> dl_event_id ` set ds)"
  by (induction ds) (auto split: option.splits)

lemma pop_first_append_new:
  "eid \<notin> dl_event_id ` set ds \<Longrightarrow> dl_event_id d = eid \<Longrightarrow>
   pop_first eid (ds @ [d]) = Some (d, ds)"
  by (induction ds) auto

lemma retry_loop_all_fail:
  "(\<And>k. a \<le> k \<Longrightarrow> k \<le> a + n \<Longrightarrow> fn k = Inl (err k)) \<Longrightarrow>
   retry_loop n a fn = Inl (err (a + n))"
proof (induction n arbitrary: a)
  case 0
  then show ?case by simp
next
  case (Suc n)
  have "fn a = Inl (err a)" using Suc.prems [of a] by simp
  moreover have "retry_loop n (Suc a) fn = Inl (err (Suc a + n))"
    by (rule Suc.IH) (use Suc.prems in auto)
  ultimately show ?case by simp
qed

lemma retry_exhausted:
  assumes "\<And>k. 1 \<le> k \<Longrightarrow> k \<le> 5 \<Longrightarrow> proc k ev p = Inl (err k)"
  shows "process_event_with_retry proc ev p = Inl (err 5)"
proof -
  have "retry_loop 4 1 (\<lambda>k. proc k ev p) = Inl (err (1 + 4))"
    by (rule retry_loop_all_fail) (use assms in auto)
  then show ?thesis
    by (simp add: process_event_with_retry_def stop_after_attempt_def)
qed

lemma dead_letter_after_exhaustion:
  assumes "\<And>k. 1 \<le> k \<Longrightarrow> k \<le> 5 \<Longrightarrow>
             proc k ev (p\<lparr>event_queue := rest\<rparr>) = Inl (Exception (msg k))"
    and "event_queue p = ev # rest"
  shows "process_queue_step proc now p =
           handle_failed_event now ev (msg 5) 0 (p\<lparr>event_queue := rest\<rparr>)"
proof -
  have "process_event_with_retry proc ev (p\<lparr>event_queue := rest\<rparr>) = Inl (Exception (msg 5))"
    using retry_exhausted [of proc ev "p\<lparr>event_queue := rest\<rparr>" "\<lambda>k. Exception (msg k)"] assms(1)
    by simp
  then show ?thesis
    using assms(2) by (simp add: process_queue_step_def Let_def)
qed

text \<open>With the unpatched body the step applies the event and writes no dead letter.\<close>

lemma retry_loop_first_success: "fn a = Inr r \<Longrightarrow> retry_loop n a fn = Inr r"
  by (cases n) simp_all

lemma process_queue_step_real:
  "event_queue p = ev # rest \<Longrightarrow>
   process_queue_step (real_processing now) now' p = process_event now ev (p\<lparr>event_queue := rest\<rparr>)"
  by (simp add: process_queue_step_def process_event_with_retry_def real_processing_def
      retry_loop_first_success Let_def)

text \<open>
  Replaying the entry just written, when no earlier entry has the same id, removes it and
  enqueues the original event with \<open>retry_count\<close> incremented.
\<close>

lemma replay_round_trip:
  assumes "event_id ev \<notin> dl_event_id ` set (failed_events p)"
  shows "retry_dlq_event (event_id ev) (handle_failed_event now ev err n p) =
           (True, enqueue_event (ev\<lparr>retry_count := retry_count ev + 1\<rparr>)
                    (p\<lparr>dlq_writes := dlq_writes p + 2\<rparr>))"
  using assms
  by (simp add: retry_dlq_event_def handle_failed_event_def pop_first_append_new
      enqueue_event_def)

text \<open>
  C10. Replaying an event id that no dead letter entry carries returns \<open>False\<close> and
  leaves the processor as it was: no entry is removed, the dead letter file is not written
  (\<open>dlq_writes\<close> is unchanged) and nothing is enqueued.
\<close>

theorem replay_unknown_id:
  assumes "eid \<notin> dl_event_id ` set (get_dlq_events p)"
  shows "retry_dlq_event eid p = (False, p)"
  using assms by (simp add: retry_dlq_event_def get_dlq_events_def pop_first_None [symmetric])

text \<open>A dead letter queue holding one entry, asked for another id.\<close>

theorem replay_unknown_id_witness:
  "''evt_999'' \<notin> dl_event_id `
       set (get_dlq_events (handle_failed_event ex_now (ex_event 1 ''confirmation'') ''boom'' 5
              ex_processor))
   \<and> retry_dlq_event ''evt_999''
        (handle_failed_event ex_now (ex_event 1 ''confirmation'') ''boom'' 5 ex_processor)
      = (False, handle_failed_event ex_now (ex_event 1 ''confirmation'') ''boom'' 5 ex_processor)
   \<and> get_dlq_events (snd (retry_dlq_event ''evt_999''
        (handle_failed_event ex_now (ex_event 1 ''confirmation'') ''boom'' 5 ex_processor)))
      = [\<lparr>dl_event_id = ''evt_001'', dl_trade_id = ''trade_001'', error_message = ''boom'',
           dl_timestamp = ex_now, dl_retry_count = 5,
           original_event = ex_event 1 ''confirmation''\<rparr>]"
proof -
  let ?p = "handle_failed_event ex_now (ex_event 1 ''confirmation'') ''boom'' 5 ex_processor"
  have h: "''evt_999'' \<notin> dl_event_id ` set (get_dlq_events ?p)"
    by (simp add: get_dlq_events_def handle_failed_event_def ex_processor_def ex_event_def)
  have r: "retry_dlq_event ''evt_999'' ?p = (False, ?p)"
    by (rule replay_unknown_id [OF h])
  have d: "get_dlq_events ?p
      = [\<lparr>dl_event_id = ''evt_001'', dl_trade_id = ''trade_001'', error_message = ''boom'',
           dl_timestamp = ex_now, dl_retry_count = 5,
           original_event = ex_event 1 ''confirmation''\<rparr>]"
    by (simp add: get_dlq_events_def handle_failed_event_def ex_processor_def ex_event_def)
  show ?thesis
    using h r d by simp
qed

text \<open>
  C5. The claim asks for the dead letter entry to hold the number of attempts consumed.
  For an event whose processing raises on each of the 5 attempts, \<open>process_queue\<close> writes
  exactly one entry with the event verbatim and the error text, but with \<open>retry_count\<close> 0:
  with \<open>reraise=True\<close> the wrapper raises the last exception itself, so the
  \<open>except RetryError\<close> clause that would record \<open>max_retries\<close> is never taken.
\<close>

theorem dead_letter_attempt_count:
  "stop_after_attempt = 5
   \<and> process_event_with_retry always_fail (ex_event 1 ''confirmation'') ex_processor
       = Inl (Exception ''Persistent failure'')
   \<and> get_dlq_events
       (process_queue_step always_fail ex_now
          (enqueue_event (ex_event 1 ''confirmation'') ex_processor))
     = [\<lparr>dl_event_id = ''evt_001'', dl_trade_id = ''trade_001'',
          error_message = ''Persistent failure'', dl_timestamp = ex_now,
          dl_retry_count = 0, original_event = ex_event 1 ''confirmation''\<rparr>]"
proof -
  let ?ev = "ex_event 1 ''confirmation''"
  have a: "\<And>p. process_event_with_retry always_fail ?ev p = Inl (Exception ''Persistent failure'')"
    by (rule retry_exhausted [where err = "\<lambda>k. Exception ''Persistent failure''"])
       (simp add: always_fail_def)
  have q: "event_queue (enqueue_event ?ev ex_processor) = [?ev]"
    by (simp add: enqueue_event_def ex_processor_def)
  show ?thesis
    using a q
    by (simp add: stop_after_attempt_def process_queue_step_def Let_def get_dlq_events_def
        handle_failed_event_def enqueue_event_def ex_processor_def ex_event_def)
qed

section \<open>Properties of the webhook receiver\<close>

lemma truthy_dict_get:
  "truthy (dict_get payload k JNull) \<Longrightarrow> dict_get payload k dflt = dict_get payload k JNull"
  by (auto simp: dict_get_def split: option.splits)

lemma parse_event_id:
  "parse_event now payload = Inr (Some event) \<Longrightarrow>
   wh_event_id event = dict_get payload ''event_id'' (JStr [])"
  by (auto simp: parse_event_def parse_ethereum_event_def parse_bitcoin_event_def
      parse_solana_event_def parse_litecoin_event_def parse_common_def Let_def
      split: json.splits if_splits)


lemma received_when:
  assumes "verify_signature hmac_hex r (body request) (signature request)"
    and "json_loads (body request) = Loaded (JDict payload)"
    and "truthy (dict_get payload ''event_id'' JNull)"
    and "check_idempotency r (dict_get payload ''event_id'' JNull)"
    and "parse_event now payload = Inr (Some event)"
  shows "handle_webhook hmac_hex json_loads now w1 w2 request r =
           ((200, [(''status'', JStr ''received''),
                   (''event_id'', dict_get payload ''event_id'' JNull),
                   (''network'', JStr (network event)),
                   (''tx_hash'', wh_tx_hash event)]),
            mark_processed w2 (dict_get payload ''event_id'' JNull)
              (save_events w1
                 ((load_events r)\<lparr>doc_events := doc_events (load_events r) @ [event]\<rparr>) r))"
  using assms by (simp add: handle_webhook_def Let_def)

lemma duplicate_when:
  assumes "verify_signature hmac_hex r (body request) (signature request)"
    and "json_loads (body request) = Loaded (JDict payload)"
    and "truthy (dict_get payload ''event_id'' JNull)"
    and "\<not> check_idempotency r (dict_get payload ''event_id'' JNull)"
  shows "handle_webhook hmac_hex json_loads now w1 w2 request r =
           ((200, [(''status'', JStr ''duplicate''),
                   (''event_id'', dict_get payload ''event_id'' JNull)]), r)"
  using assms by (simp add: handle_webhook_def Let_def)

text \<open>The file after the two writes of an accepted request, when both succeed.\<close>

lemma persist_both_written:
  assumes "eid \<notin> set (processed_ids (load_events r))"
  shows "load_events (mark_processed Written eid
            (save_events Written
               ((load_events r)\<lparr>doc_events := doc_events (load_events r) @ [event]\<rparr>) r))
         = \<lparr>doc_events = doc_events (load_events r) @ [event],
            processed_ids = processed_ids (load_events r) @ [eid]\<rparr>"
  using assms
  by (simp add: mark_processed_def save_events_def load_events_def Let_def)

text \<open>
  A second write that fails after the open empties the file: the event the first write
  stored is lost again.
\<close>

lemma truncating_write_loses_event:
  assumes "eid \<notin> set (processed_ids (load_events r))"
  shows "load_events (mark_processed FailedTruncated eid
            (save_events Written
               ((load_events r)\<lparr>doc_events := doc_events (load_events r) @ [event]\<rparr>) r))
         = \<lparr>doc_events = [], processed_ids = []\<rparr>"
  using assms
  by (simp add: mark_processed_def save_events_def load_events_def Let_def)




text \<open>
  C4. A correctly signed, well-formed delivery of a new event id is answered "received"
  and, its two writes succeeding, appends one event and one ledger entry. A second
  correctly signed delivery carrying the same event id is answered with status 200 and
  \<open>"duplicate"\<close>, whatever the rest of its body is, and leaves the receiver unchanged:
  nothing is parsed, stored or added to the ledger.
\<close>

theorem duplicate_delivery:
  assumes "verify_signature hmac_hex r (body request) (signature request)"
    and "json_loads (body request) = Loaded (JDict payload)"
    and "dict_get payload ''event_id'' JNull = JStr eid" and "eid \<noteq> []"
    and "parse_event now payload = Inr (Some event)"
    and "\<not> in_ledger r (JStr eid)"
    and "handle_webhook hmac_hex json_loads now Written Written request r = (resp1, r1)"
    and "verify_signature hmac_hex r1 (body request2) (signature request2)"
    and "json_loads (body request2) = Loaded (JDict payload2)"
    and "dict_get payload2 ''event_id'' JNull = JStr eid"
    and "handle_webhook hmac_hex json_loads now2 w1 w2 request2 r1 = (resp2, r2)"
  shows "is_received resp1
       \<and> resp2 = (200, [(''status'', JStr ''duplicate''), (''event_id'', JStr eid)])
       \<and> is_duplicate resp2 \<and> \<not> is_received resp2
       \<and> r2 = r1
       \<and> doc_events (load_events r2) = doc_events (load_events r) @ [event]
       \<and> wh_event_id event = JStr eid
       \<and> processed_ids (load_events r2) = processed_ids (load_events r) @ [JStr eid]
       \<and> events_file r2 \<noteq> None"
proof -
  have t: "truthy (dict_get payload ''event_id'' JNull)"
    using assms(3,4) by simp
  have fresh: "JStr eid \<notin> set (processed_ids (load_events r))"
    using assms(6) by (simp add: in_ledger_def)
  then have c: "check_idempotency r (dict_get payload ''event_id'' JNull)"
    using assms(3) by (simp add: check_idempotency_def)
  have "handle_webhook hmac_hex json_loads now Written Written request r =
           ((200, [(''status'', JStr ''received''),
                   (''event_id'', dict_get payload ''event_id'' JNull),
                   (''network'', JStr (network event)),
                   (''tx_hash'', wh_tx_hash event)]),
            mark_processed Written (dict_get payload ''event_id'' JNull)
              (save_events Written
                 ((load_events r)\<lparr>doc_events := doc_events (load_events r) @ [event]\<rparr>) r))"
    by (rule received_when) (fact assms(1), fact assms(2), fact t, fact c, fact assms(5))
  with assms(7)
  have resp1: "resp1 = (200, [(''status'', JStr ''received''),
                   (''event_id'', dict_get payload ''event_id'' JNull),
                   (''network'', JStr (network event)),
                   (''tx_hash'', wh_tx_hash event)])"
    and r1: "r1 = mark_processed Written (JStr eid)
              (save_events Written
                 ((load_events r)\<lparr>doc_events := doc_events (load_events r) @ [event]\<rparr>) r)"
    using assms(3) by simp_all
  have doc1: "load_events r1 = \<lparr>doc_events = doc_events (load_events r) @ [event],
                  processed_ids = processed_ids (load_events r) @ [JStr eid]\<rparr>"
    unfolding r1 by (rule persist_both_written [OF fresh])
  have some1: "events_file r1 \<noteq> None"
    unfolding r1 using fresh
    by (simp add: mark_processed_def save_events_def load_events_def Let_def)
  have t2: "truthy (dict_get payload2 ''event_id'' JNull)"
    using assms(10,4) by simp
  have c2: "\<not> check_idempotency r1 (dict_get payload2 ''event_id'' JNull)"
    using assms(10) by (simp add: check_idempotency_def doc1)
  have "handle_webhook hmac_hex json_loads now2 w1 w2 request2 r1 =
           ((200, [(''status'', JStr ''duplicate''),
                   (''event_id'', dict_get payload2 ''event_id'' JNull)]), r1)"
    by (rule duplicate_when) (fact assms(8), fact assms(9), fact t2, fact c2)
  with assms(11)
  have resp2: "resp2 = (200, [(''status'', JStr ''duplicate''), (''event_id'', JStr eid)])"
    and r2: "r2 = r1"
    using assms(10) by simp_all
  have id: "wh_event_id event = JStr eid"
    using parse_event_id [OF assms(5)] truthy_dict_get [OF t] assms(3) by simp
  show ?thesis
    using resp1 resp2 r2 doc1 some1 id
    by (simp add: is_received_def is_duplicate_def)
qed

text \<open>The same request delivered twice to an empty store: one event is stored.\<close>

theorem duplicate_delivery_witness:
  "verify_signature ex_hmac ex_receiver (body ex_request) (signature ex_request)
   \<and> ex_loads (body ex_request) = Loaded (JDict ex_payload)
   \<and> dict_get ex_payload ''event_id'' JNull = JStr ''evt_001''
   \<and> \<not> in_ledger ex_receiver (JStr ''evt_001'')
   \<and> is_received
       (fst (handle_webhook ex_hmac ex_loads ex_now Written Written ex_request ex_receiver))
   \<and> is_duplicate
       (fst (handle_webhook ex_hmac ex_loads ex_now Written Written ex_request
          (snd (handle_webhook ex_hmac ex_loads ex_now Written Written ex_request ex_receiver))))
   \<and> snd (handle_webhook ex_hmac ex_loads ex_now Written Written ex_request
          (snd (handle_webhook ex_hmac ex_loads ex_now Written Written ex_request ex_receiver)))
     = snd (handle_webhook ex_hmac ex_loads ex_now Written Written ex_request ex_receiver)
   \<and> doc_events (load_events
        (snd (handle_webhook ex_hmac ex_loads ex_now Written Written ex_request
          (snd (handle_webhook ex_hmac ex_loads ex_now Written Written ex_request
             ex_receiver)))))
     = [parse_ethereum_event ex_now ex_payload]"
proof -
  let ?H1 = "handle_webhook ex_hmac ex_loads ex_now Written Written ex_request ex_receiver"
  let ?H2 = "handle_webhook ex_hmac ex_loads ex_now Written Written ex_request (snd ?H1)"
  have h1: "verify_signature ex_hmac ex_receiver (body ex_request) (signature ex_request)"
    by (simp add: verify_signature_def ex_hmac_def ex_request_def)
  have h2: "ex_loads (body ex_request) = Loaded (JDict ex_payload)"
    by (simp add: ex_loads_def)
  have h3: "dict_get ex_payload ''event_id'' JNull = JStr ''evt_001''"
    by (simp add: dict_get_def ex_payload_def)
  have h4: "''evt_001'' \<noteq> []" by simp
  have h5: "parse_event ex_now ex_payload = Inr (Some (parse_ethereum_event ex_now ex_payload))"
    by (simp add: parse_event_def dict_get_def ex_payload_def upper_def to_upper_def Let_def)
  have h6: "\<not> in_ledger ex_receiver (JStr ''evt_001'')"
    by (simp add: in_ledger_def load_events_def ex_receiver_def)
  have h7: "?H1 = (fst ?H1, snd ?H1)" by simp
  have h8: "verify_signature ex_hmac (snd ?H1) (body ex_request) (signature ex_request)"
    by (simp add: verify_signature_def ex_hmac_def ex_request_def)
  have h11: "?H2 = (fst ?H2, snd ?H2)" by simp
  have e: "doc_events (load_events ex_receiver) = []"
    by (simp add: load_events_def ex_receiver_def)
  have c: "is_received (fst ?H1)
       \<and> fst ?H2 = (200, [(''status'', JStr ''duplicate''), (''event_id'', JStr ''evt_001'')])
       \<and> is_duplicate (fst ?H2) \<and> \<not> is_received (fst ?H2)
       \<and> snd ?H2 = snd ?H1
       \<and> doc_events (load_events (snd ?H2))
           = doc_events (load_events ex_receiver) @ [parse_ethereum_event ex_now ex_payload]
       \<and> wh_event_id (parse_ethereum_event ex_now ex_payload) = JStr ''evt_001''
       \<and> processed_ids (load_events (snd ?H2))
           = processed_ids (load_events ex_receiver) @ [JStr ''evt_001'']
       \<and> events_file (snd ?H2) \<noteq> None"
    by (rule duplicate_delivery [where hmac_hex = ex_hmac and json_loads = ex_loads
      and r = ex_receiver and request = ex_request and payload = ex_payload
      and eid = "''evt_001''" and now = ex_now
      and event = "parse_ethereum_event ex_now ex_payload"
      and ?request2.0 = ex_request and ?payload2.0 = ex_payload and ?now2.0 = ex_now
      and ?w1.0 = Written and ?w2.0 = Written
      and ?resp1.0 = "fst ?H1" and ?r1.0 = "snd ?H1" and ?resp2.0 = "fst ?H2" and ?r2.0 = "snd ?H2",
      OF h1 h2 h3 h4 h5 h6 h7 h8 h2 h3 h11])
  have c1: "is_received (fst ?H1)" and c2: "is_duplicate (fst ?H2)"
    and c3: "snd ?H2 = snd ?H1"
    using c by blast+
  have "doc_events (load_events (snd ?H2))
           = doc_events (load_events ex_receiver) @ [parse_ethereum_event ex_now ex_payload]"
    using c by blast
  then have c4: "doc_events (load_events (snd ?H2)) = [parse_ethereum_event ex_now ex_payload]"
    by (simp only: e append_Nil)
  note c1 c2 c3 c4
  with h1 h2 h3 h6 show ?thesis by blast
qed

section \<open>Properties of the RPC client\<close>

lemma request_loop_all_caught:
  "k < n \<Longrightarrow>
   (\<And>a. k \<le> a \<Longrightarrow> a < n \<Longrightarrow> try_attempt c (send a u payload (timeout c)) = Caught (err a)) \<Longrightarrow>
   request_loop send c u payload [k ..< n] last_error =
     (Inl (err (n - 1)),
      concat (map (\<lambda>a. Request a u payload (timeout c) # backoff c a) [k ..< n]))"
proof (induction "n - k" arbitrary: k last_error)
  case 0
  then show ?case by simp
next
  case (Suc m)
  have split: "[k ..< n] = k # [Suc k ..< n]"
    using Suc.prems(1) by (simp add: upt_conv_Cons)
  have first: "try_attempt c (send k u payload (timeout c)) = Caught (err k)"
    using Suc.prems by simp
  show ?case
  proof (cases "Suc k < n")
    case True
    have "request_loop send c u payload [Suc k ..< n] (Some (err k)) =
            (Inl (err (n - 1)),
             concat (map (\<lambda>a. Request a u payload (timeout c) # backoff c a) [Suc k ..< n]))"
      by (rule Suc.hyps(1)) (use Suc.hyps(2) Suc.prems True in auto)
    then show ?thesis
      by (simp add: split first)
  next
    case False
    then have "n = Suc k" using Suc.prems(1) by simp
    then show ?thesis
      using first by (simp add: split)
  qed
qed

lemma backoff_before_last:
  "int n = rpc_max_retries c \<Longrightarrow> a < n - 1 \<Longrightarrow> backoff c a = [Sleep (backoff_factor c ^ a)]"
  by (auto simp: backoff_def)

lemma backoff_last:
  "int n = rpc_max_retries c \<Longrightarrow> 0 < n \<Longrightarrow> backoff c (n - 1) = []"
  by (auto simp: backoff_def)

lemma trace_shape:
  assumes "int n = rpc_max_retries c" and "0 < n"
  shows "concat (map (\<lambda>a. Request a u payload (timeout c) # backoff c a) [0 ..< n]) =
         concat (map (\<lambda>a. [Request a u payload (timeout c), Sleep (backoff_factor c ^ a)])
                   [0 ..< n - 1])
         @ [Request (n - 1) u payload (timeout c)]"
proof -
  have n: "[0 ..< n] = [0 ..< n - 1] @ [n - 1]"
    using assms(2) by (cases n) simp_all
  have m: "map (\<lambda>a. Request a u payload (timeout c) # backoff c a) [0 ..< n - 1]
        = map (\<lambda>a. [Request a u payload (timeout c), Sleep (backoff_factor c ^ a)]) [0 ..< n - 1]"
    by (rule map_cong) (simp_all add: backoff_before_last [OF assms(1)])
  have "concat (map (\<lambda>a. Request a u payload (timeout c) # backoff c a) [0 ..< n]) =
        concat (map (\<lambda>a. Request a u payload (timeout c) # backoff c a) [0 ..< n - 1])
        @ (Request (n - 1) u payload (timeout c) # backoff c (n - 1))"
    by (subst n) simp
  also have "\<dots> = concat (map (\<lambda>a. [Request a u payload (timeout c),
                                        Sleep (backoff_factor c ^ a)]) [0 ..< n - 1])
         @ [Request (n - 1) u payload (timeout c)]"
    by (simp only: m backoff_last [OF assms])
  finally show ?thesis .
qed

text \<open>
  The failures the loop catches are exactly those with a classified fault, and the loop
  records that fault.
\<close>

lemma try_attempt_classified:
  "classified_fault (timeout c) outcome = Some e \<Longrightarrow> try_attempt c outcome = Caught e"
  by (cases outcome) (auto simp: try_attempt_def split: error_field.splits)

lemma try_attempt_unclassified:
  "classified_fault (timeout c) outcome = None \<Longrightarrow>
   (\<exists>d. try_attempt c outcome = Return d) \<or> (\<exists>m. try_attempt c outcome = Escaped (Uncaught m))"
  by (cases outcome) (auto simp: try_attempt_def split: error_field.splits)

lemma classified_is_typed: "classified_fault t outcome = Some e \<Longrightarrow> typed_fault e"
  by (cases outcome) (auto split: error_field.splits)

text \<open>
  When every one of the \<open>max_retries\<close> attempts ends in a timeout, a transport error or an
  error object in the response, the client makes exactly \<open>max_retries\<close> requests, sleeps
  \<open>backoff_factor ** attempt\<close> after each attempt but the last (attempt counted from 0),
  and then raises the fault classified for the last attempt.
\<close>

lemma caught_failures_retried:
  assumes "u \<noteq> []" and "1 \<le> rpc_max_retries c"
    and "\<And>a. a < nat (rpc_max_retries c) \<Longrightarrow>
           classified_fault (timeout c) (send a u payload (timeout c)) = Some (err a)"
  shows "make_request send c (Some u) payload =
           (Inl (err (nat (rpc_max_retries c) - 1)),
            concat (map (\<lambda>a. [Request a u payload (timeout c), Sleep (backoff_factor c ^ a)])
                      [0 ..< nat (rpc_max_retries c) - 1])
            @ [Request (nat (rpc_max_retries c) - 1) u payload (timeout c)])
       \<and> typed_fault (err (nat (rpc_max_retries c) - 1))"
proof -
  let ?n = "nat (rpc_max_retries c)"
  have n: "int ?n = rpc_max_retries c" "0 < ?n" using assms(2) by simp_all
  have caught: "\<And>a. a < ?n \<Longrightarrow>
      try_attempt c (send a u payload (timeout c)) = Caught (err a)"
    by (rule try_attempt_classified) (rule assms(3))
  have "request_loop send c u payload [0 ..< ?n] None =
     (Inl (err (?n - 1)),
      concat (map (\<lambda>a. Request a u payload (timeout c) # backoff c a) [0 ..< ?n]))"
    by (rule request_loop_all_caught) (use n caught in auto)
  then have "make_request send c (Some u) payload =
           (Inl (err (?n - 1)),
            concat (map (\<lambda>a. [Request a u payload (timeout c), Sleep (backoff_factor c ^ a)])
                      [0 ..< ?n - 1])
            @ [Request (?n - 1) u payload (timeout c)])"
    using assms(1) by (simp add: make_request_def trace_shape [OF n])
  moreover have "typed_fault (err (?n - 1))"
    using assms(3) [of "?n - 1"] n by (auto dest: classified_is_typed)
  ultimately show ?thesis by simp
qed

text \<open>
  With \<open>backoff_factor = 2\<close> and \<open>max_retries = 3\<close> against an endpoint that refuses
  every connection: three requests, sleeps of 1 and 2 between them, a connection fault.
\<close>

lemma backoff_schedule_example:
  "make_request refusing ex_client (Some ''http://eth'') JNull =
       (Inl (RPCConnectionError ''Connection error: refused''),
        [Request 0 ''http://eth'' JNull 10, Sleep 1,
         Request 1 ''http://eth'' JNull 10, Sleep 2,
         Request 2 ''http://eth'' JNull 10])"
proof -
  have h1: "''http://eth'' \<noteq> []" by simp
  have h2: "1 \<le> rpc_max_retries ex_client" by (simp add: ex_client_def)
  have h3: "\<And>a. a < nat (rpc_max_retries ex_client) \<Longrightarrow>
      classified_fault (timeout ex_client) (refusing a ''http://eth'' JNull (timeout ex_client))
        = Some (RPCConnectionError ''Connection error: refused'')"
    by (simp add: refusing_def)
  have n: "nat (rpc_max_retries ex_client) = 3" "backoff_factor ex_client = 2"
    "timeout ex_client = 10"
    by (simp_all add: ex_client_def)
  have u: "[0 ..< (2::nat)] = [0, 1]" by (simp add: upt_rec)
  from caught_failures_retried
      [where err = "\<lambda>a. RPCConnectionError ''Connection error: refused''"
      and send = refusing and c = ex_client and u = "''http://eth''" and payload = JNull,
      OF h1 h2 h3]
  show ?thesis
    by (simp add: n u)
qed

text \<open>
  C6. The claim asks that every call that fails on all attempts be retried and end in one
  of the three typed faults. The code does so for the failures its \<open>except\<close> clauses
  catch, but not for every failure. Against an endpoint that answers each request with
  status 500 and an \<open>error\<close> entry that is not an object (the response of
  \<open>test_http_error_status\<close>), \<open>data["error"].get\<close> raises \<open>AttributeError\<close> in the first
  attempt and no clause catches it: with \<open>max_retries = 3\<close> there is one request, no
  retry and no sleep, and the exception that leaves \<open>_make_request\<close> is none of the typed
  faults. The same happens when \<open>response.json()\<close> raises \<open>ValueError\<close> (the response of
  \<open>test_json_decode_error\<close>).
\<close>

theorem uncaught_failure_escapes:
  "rpc_max_retries ex_client = 3
   \<and> make_request (answering 500 ErrorNotObject) ex_client (Some ''http://eth'') JNull =
       (Inl (Uncaught ''AttributeError''), [Request 0 ''http://eth'' JNull 10])
   \<and> \<not> typed_fault (Uncaught ''AttributeError'')
   \<and> make_request undecodable ex_client (Some ''http://eth'') JNull =
       (Inl (Uncaught ''Invalid JSON''), [Request 0 ''http://eth'' JNull 10])
   \<and> \<not> typed_fault (Uncaught ''Invalid JSON'')"
proof -
  have u: "[0 ..< (3::nat)] = [0, 1, 2]" by (simp add: upt_rec)
  have n: "nat (rpc_max_retries ex_client) = 3" "timeout ex_client = 10"
    "rpc_max_retries ex_client = 3"
    by (simp_all add: ex_client_def)
  show ?thesis
    by (simp add: make_request_def n u try_attempt_def answering_def undecodable_def)
qed



end
